theory Spec2Isabelle
  imports Main "HOL-Library.AList"
begin

section \<open>Data model (the Report interface, src/App.tsx lines 10-24)\<close>

text \<open>
  Quantities are JavaScript numbers holding integers; they are modelled as unbounded
  integers. A \<^verbatim>\<open>Record<string, number>\<close> is an association list in insertion
  order (the order \<^verbatim>\<open>Object.entries\<close> walks it), a
  \<^verbatim>\<open>Record<string, StockItem>\<close> is a map. Calendar dates are the strings the
  program stores.
\<close>

datatype status = Process | Done

type_synonym item_map = "(string \<times> int) list"

record form_data =
  requesterName :: string
  campus :: string
  importDate :: string
  exportDate :: string
  items :: item_map
  status :: status

record report = form_data +
  report_id :: string

record StockItem =
  quantity :: int
  lastInDate :: string
  lastOutDate :: string
  lastUpdateQuantity :: int

type_synonym stock_map = "string \<rightharpoonup> StockItem"

record shortfall =
  sf_item :: string
  requested :: int
  available :: int

text \<open>The messages the handlers pass to \<^verbatim>\<open>alert\<close>, with the itemised part kept structured.\<close>

datatype alert =
    FillAllFields
  | CannotAddReport "shortfall list"
  | CannotUpdateReport "shortfall list"
  | ImportSucceeded nat
  | ImportFailed string

record app_state =
  reports :: "report list"
  formData :: form_data
  selectedReportId :: "string option"
  stock :: stock_map
  tempStock :: stock_map
  isEditingStock :: bool
  isConfirmingDelete :: bool
  isConfirmingClearStock :: bool
  isImporting :: bool

definition initialFormData :: form_data where
  "initialFormData =
     \<lparr>requesterName = [], campus = [], importDate = [], exportDate = [],
      items = [], status = Process\<rparr>"

definition emptyStockItem :: StockItem where
  "emptyStockItem = \<lparr>quantity = 0, lastInDate = [], lastOutDate = [], lastUpdateQuantity = 0\<rparr>"

section \<open>Form and report lifecycle (src/App.tsx lines 402-591)\<close>

definition clearForm :: "app_state \<Rightarrow> app_state" where
  "clearForm st = st\<lparr>formData := initialFormData, selectedReportId := None\<rparr>"

text \<open>\<^verbatim>\<open>stock[item]?.quantity || 0\<close>\<close>

definition availableQty :: "stock_map \<Rightarrow> string \<Rightarrow> int" where
  "availableQty stk i = (case stk i of None \<Rightarrow> 0 | Some s \<Rightarrow> quantity s)"

text \<open>\<^verbatim>\<open>if (newStock[item]) { ... }\<close>: an entry is rewritten only where one exists.\<close>

definition adjustEntry :: "string \<Rightarrow> (StockItem \<Rightarrow> StockItem) \<Rightarrow> stock_map \<Rightarrow> stock_map" where
  "adjustEntry i g stk = (case stk i of None \<Rightarrow> stk | Some s \<Rightarrow> stk(i \<mapsto> g s))"

definition takeOut :: "string \<Rightarrow> int \<Rightarrow> StockItem \<Rightarrow> StockItem" where
  "takeOut today q s =
     s\<lparr>quantity := quantity s - q, lastOutDate := today, lastUpdateQuantity := - q\<rparr>"

definition putBack :: "string \<Rightarrow> int \<Rightarrow> StockItem \<Rightarrow> StockItem" where
  "putBack today q s =
     s\<lparr>quantity := quantity s + q, lastInDate := today, lastUpdateQuantity := q\<rparr>"

text \<open>The loops over \<^verbatim>\<open>Object.entries(...)\<close> inside \<^verbatim>\<open>setStock\<close>.\<close>

definition deductItems :: "string \<Rightarrow> item_map \<Rightarrow> stock_map \<Rightarrow> stock_map" where
  "deductItems today its stk = fold (\<lambda>(i, q). adjustEntry i (takeOut today q)) its stk"

definition addBackItems :: "string \<Rightarrow> item_map \<Rightarrow> stock_map \<Rightarrow> stock_map" where
  "addBackItems today its stk = fold (\<lambda>(i, q). adjustEntry i (putBack today q)) its stk"

text \<open>The shortfall scan of handleAddReport and of the Process-to-Done update.\<close>

definition insufficientItems :: "stock_map \<Rightarrow> item_map \<Rightarrow> shortfall list" where
  "insufficientItems stk its =
     map (\<lambda>(i, q). \<lparr>sf_item = i, requested = q, available = availableQty stk i\<rparr>)
       (filter (\<lambda>(i, q). availableQty stk i < q) its)"

text \<open>\<^verbatim>\<open>new Set([...])\<close>: first occurrences, in order.\<close>

fun uniq :: "'a list \<Rightarrow> 'a list" where
  "uniq [] = []"
| "uniq (x # xs) = x # filter (\<lambda>y. y \<noteq> x) (uniq xs)"

definition allItemNames :: "item_map \<Rightarrow> item_map \<Rightarrow> string list" where
  "allItemNames orig upd = uniq (map fst orig @ map fst upd)"

text \<open>\<^verbatim>\<open>Number(items[item] || 0)\<close>\<close>

definition qtyOf :: "item_map \<Rightarrow> string \<Rightarrow> int" where
  "qtyOf its i = (case map_of its i of None \<Rightarrow> 0 | Some q \<Rightarrow> q)"

definition insufficientDelta :: "stock_map \<Rightarrow> item_map \<Rightarrow> item_map \<Rightarrow> shortfall list" where
  "insufficientDelta stk orig upd =
     map (\<lambda>i. \<lparr>sf_item = i, requested = qtyOf upd i - qtyOf orig i,
                available = availableQty stk i\<rparr>)
       (filter (\<lambda>i. qtyOf upd i - qtyOf orig i > 0
                     \<and> availableQty stk i < qtyOf upd i - qtyOf orig i)
          (allItemNames orig upd))"

definition applyDelta :: "string \<Rightarrow> int \<Rightarrow> StockItem \<Rightarrow> StockItem" where
  "applyDelta today delta s =
     (if delta = 0 then s
      else if delta > 0
        then s\<lparr>quantity := quantity s + delta, lastInDate := today, lastUpdateQuantity := delta\<rparr>
        else s\<lparr>quantity := quantity s + delta, lastOutDate := today, lastUpdateQuantity := delta\<rparr>)"

definition reconcileDelta :: "string \<Rightarrow> item_map \<Rightarrow> item_map \<Rightarrow> stock_map \<Rightarrow> stock_map" where
  "reconcileDelta today orig upd stk =
     fold (\<lambda>i. adjustEntry i (applyDelta today (qtyOf orig i - qtyOf upd i)))
       (allItemNames orig upd) stk"

definition mkReport :: "string \<Rightarrow> form_data \<Rightarrow> report" where
  "mkReport rid fd =
     \<lparr>requesterName = requesterName fd, campus = campus fd, importDate = importDate fd,
      exportDate = exportDate fd, items = items fd, status = status fd, report_id = rid\<rparr>"

text \<open>
  \<^verbatim>\<open>!formData.requesterName || !formData.campus || !formData.importDate || !formData.exportDate\<close>
\<close>

definition missingFields :: "form_data \<Rightarrow> bool" where
  "missingFields fd =
     (requesterName fd = [] \<or> campus fd = [] \<or> importDate fd = [] \<or> exportDate fd = [])"

text \<open>
  The handlers take the clock readings they make (\<open>today\<close> is
  \<^verbatim>\<open>new Date().toISOString().split('T')[0]\<close>, \<open>now\<close> the full ISO timestamp used as
  identifier) and return the next state with the message passed to \<^verbatim>\<open>alert\<close>, if any.
\<close>

definition handleAddReport :: "string \<Rightarrow> string \<Rightarrow> app_state \<Rightarrow> app_state \<times> alert option" where
  "handleAddReport today now st =
     (let fd = formData st in
      if missingFields fd
      then (st, Some FillAllFields)
      else if status fd = Done \<and> insufficientItems (stock st) (items fd) \<noteq> []
      then (st, Some (CannotAddReport (insufficientItems (stock st) (items fd))))
      else
        (clearForm
           (st\<lparr>stock := (if status fd = Done then deductItems today (items fd) (stock st)
                          else stock st),
               reports := reports st @ [mkReport now fd]\<rparr>),
         None))"

definition updateShortfalls :: "stock_map \<Rightarrow> report \<Rightarrow> form_data \<Rightarrow> shortfall list" where
  "updateShortfalls stk original updated =
     (if status original = Process \<and> status updated = Done
      then insufficientItems stk (items updated)
      else if status original = Done \<and> status updated = Done
      then insufficientDelta stk (items original) (items updated)
      else [])"

definition updateStock :: "string \<Rightarrow> report \<Rightarrow> form_data \<Rightarrow> stock_map \<Rightarrow> stock_map" where
  "updateStock today original updated stk =
     (if status original = Process \<and> status updated = Done
      then deductItems today (items updated) stk
      else if status original = Done \<and> status updated = Process
      then addBackItems today (items original) stk
      else if status original = Done \<and> status updated = Done
      then reconcileDelta today (items original) (items updated) stk
      else stk)"

definition handleUpdateReport :: "string \<Rightarrow> app_state \<Rightarrow> app_state \<times> alert option" where
  "handleUpdateReport today st =
     (case selectedReportId st of
        None \<Rightarrow> (st, None)
      | Some sid \<Rightarrow>
          if sid = [] then (st, None)
          else (case find (\<lambda>r. report_id r = sid) (reports st) of
                  None \<Rightarrow> (st, None)
                | Some original \<Rightarrow>
                    if updateShortfalls (stock st) original (formData st) \<noteq> []
                    then (st, Some (CannotUpdateReport
                                     (updateShortfalls (stock st) original (formData st))))
                    else
                      (clearForm
                         (st\<lparr>stock := updateStock today original (formData st) (stock st),
                             reports := map (\<lambda>r. if report_id r = sid
                                                   then mkReport (report_id r) (formData st)
                                                   else r) (reports st)\<rparr>),
                       None)))"

definition handleConfirmDelete :: "string \<Rightarrow> app_state \<Rightarrow> app_state" where
  "handleConfirmDelete today st =
     (case selectedReportId st of
        None \<Rightarrow> st
      | Some sid \<Rightarrow>
          if sid = [] then st
          else
            (clearForm
               (st\<lparr>stock := (case find (\<lambda>r. report_id r = sid) (reports st) of
                               None \<Rightarrow> stock st
                             | Some r \<Rightarrow> if status r = Done
                                         then addBackItems today (items r) (stock st)
                                         else stock st),
                   reports := filter (\<lambda>r. report_id r \<noteq> sid) (reports st)\<rparr>))
              \<lparr>isConfirmingDelete := False\<rparr>)"

section \<open>Stock management (src/App.tsx lines 977-1039)\<close>

text \<open>\<^verbatim>\<open>Object.keys(prevStock).forEach(itemKey => clearedStock[itemKey] = {...})\<close>\<close>

definition handleConfirmClearStock :: "app_state \<Rightarrow> app_state" where
  "handleConfirmClearStock st =
     st\<lparr>stock := (\<lambda>k. case stock st k of None \<Rightarrow> None | Some _ \<Rightarrow> Some emptyStockItem),
        isConfirmingClearStock := False\<rparr>"

section \<open>Number inputs: parseInt(value, 10)\<close>

text \<open>
  \<^verbatim>\<open>parseInt\<close> as ECMAScript defines it for radix 10: leading white space is skipped, one
  sign is read, the longest run of decimal digits is the value, and no digit at all gives
  \<^verbatim>\<open>NaN\<close> (here \<open>None\<close>). Strings are byte strings, so only the ASCII white space
  characters are recognised; the value is the exact integer.
\<close>

definition isWhiteSpace :: "char \<Rightarrow> bool" where
  "isWhiteSpace c = (c \<in> set [CHR 0x09, CHR 0x0A, CHR 0x0B, CHR 0x0C, CHR 0x0D, CHR 0x20])"

definition isDigit :: "char \<Rightarrow> bool" where
  "isDigit c = (48 \<le> (of_char c :: nat) \<and> (of_char c :: nat) \<le> 57)"

definition digitValue :: "char \<Rightarrow> int" where
  "digitValue c = int (of_char c) - 48"

definition decimalValue :: "string \<Rightarrow> int" where
  "decimalValue ds = foldl (\<lambda>a c. 10 * a + digitValue c) 0 ds"

definition parseInt :: "string \<Rightarrow> int option" where
  "parseInt inputString =
     (let S = dropWhile isWhiteSpace inputString;
          sign = (if S \<noteq> [] \<and> hd S = CHR ''-'' then - 1 else 1);
          S' = (if S \<noteq> [] \<and> (hd S = CHR ''+'' \<or> hd S = CHR ''-'') then tl S else S);
          Z = takeWhile isDigit S'
      in if Z = [] then None
         else Some (sign * decimalValue Z))"

section \<open>Form entry (src/App.tsx lines 384-400, 453-465)\<close>

text \<open>The form controls that call handleInputChange, by the field they are bound to.\<close>

datatype input_change =
    RequesterNameInput string
  | CampusInput string
  | ImportDateInput string
  | ExportDateInput string
  | StatusInput status

fun handleInputChange :: "input_change \<Rightarrow> app_state \<Rightarrow> app_state" where
  "handleInputChange (RequesterNameInput v) st = st\<lparr>formData := (formData st)\<lparr>requesterName := v\<rparr>\<rparr>"
| "handleInputChange (CampusInput v) st = st\<lparr>formData := (formData st)\<lparr>campus := v\<rparr>\<rparr>"
| "handleInputChange (ImportDateInput v) st = st\<lparr>formData := (formData st)\<lparr>importDate := v\<rparr>\<rparr>"
| "handleInputChange (ExportDateInput v) st = st\<lparr>formData := (formData st)\<lparr>exportDate := v\<rparr>\<rparr>"
| "handleInputChange (StatusInput v) st = st\<lparr>formData := (formData st)\<lparr>status := v\<rparr>\<rparr>"

text \<open>
  \<^verbatim>\<open>newItems[item] = quantity\<close> overwrites in place or appends;
  \<^verbatim>\<open>delete newItems[item]\<close> removes the key.
\<close>

definition handleItemQuantityChange :: "string \<Rightarrow> string \<Rightarrow> app_state \<Rightarrow> app_state" where
  "handleItemQuantityChange item v st =
     st\<lparr>formData := (formData st)
          \<lparr>items := (case parseInt v of
                        None \<Rightarrow> AList.delete item (items (formData st))
                      | Some q \<Rightarrow> if q > 0 then AList.update item q (items (formData st))
                                  else AList.delete item (items (formData st)))\<rparr>\<rparr>"

definition handleSelectReport :: "report \<Rightarrow> app_state \<Rightarrow> app_state" where
  "handleSelectReport r st =
     st\<lparr>selectedReportId := Some (report_id r),
        formData := \<lparr>requesterName = requesterName r, campus = campus r,
                     importDate = importDate r, exportDate = exportDate r,
                     items = items r, status = status r\<rparr>\<rparr>"

definition handleDeleteReport :: "app_state \<Rightarrow> app_state" where
  "handleDeleteReport st =
     (case selectedReportId st of
        None \<Rightarrow> st
      | Some sid \<Rightarrow> if sid = [] then st else st\<lparr>isConfirmingDelete := True\<rparr>)"

section \<open>Manual stock edit (src/App.tsx lines 362-366, 977-1027)\<close>

text \<open>The effect that copies the stock into the edit buffer whenever no edit is open.\<close>

definition syncTempStock :: "app_state \<Rightarrow> app_state" where
  "syncTempStock st = (if isEditingStock st then st else st\<lparr>tempStock := stock st\<rparr>)"

text \<open>\<^verbatim>\<open>prev[item] || { quantity: 0, lastInDate: '', lastOutDate: '', lastUpdateQuantity: 0 }\<close>\<close>

definition entryOrEmpty :: "stock_map \<Rightarrow> string \<Rightarrow> StockItem" where
  "entryOrEmpty stk i = (case stk i of None \<Rightarrow> emptyStockItem | Some s \<Rightarrow> s)"

text \<open>\<^verbatim>\<open>isNaN(quantity) || quantity < 0 ? 0 : quantity\<close>\<close>

definition editedQuantity :: "string \<Rightarrow> int" where
  "editedQuantity v = (case parseInt v of None \<Rightarrow> 0 | Some q \<Rightarrow> if q < 0 then 0 else q)"

definition handleTempStockChange :: "string \<Rightarrow> string \<Rightarrow> app_state \<Rightarrow> app_state" where
  "handleTempStockChange item v st =
     st\<lparr>tempStock := (tempStock st)
          (item \<mapsto> (entryOrEmpty (tempStock st) item)\<lparr>quantity := editedQuantity v\<rparr>)\<rparr>"

text \<open>The body of the loop of handleSaveStock for one key: \<open>old\<close> is the entry of the
  stock (or the empty entry), \<open>new\<close> the entry of the edit buffer.\<close>

definition savedEntry :: "string \<Rightarrow> StockItem \<Rightarrow> StockItem \<Rightarrow> StockItem" where
  "savedEntry today old new =
     (let delta = quantity new - quantity old in
      if delta \<noteq> 0
      then if delta > 0
           then new\<lparr>lastUpdateQuantity := delta, lastInDate := today,
                    lastOutDate := lastOutDate old\<rparr>
           else new\<lparr>lastUpdateQuantity := delta, lastOutDate := today,
                    lastInDate := lastInDate old\<rparr>
      else new\<lparr>lastInDate := lastInDate old, lastOutDate := lastOutDate old,
               lastUpdateQuantity := lastUpdateQuantity old\<rparr>)"

definition handleSaveStock :: "string \<Rightarrow> app_state \<Rightarrow> app_state" where
  "handleSaveStock today st =
     st\<lparr>stock := (\<lambda>k. case tempStock st k of
                         None \<Rightarrow> None
                       | Some new \<Rightarrow> Some (savedEntry today (entryOrEmpty (stock st) k) new)),
        isEditingStock := False\<rparr>"

definition handleCancelEditStock :: "app_state \<Rightarrow> app_state" where
  "handleCancelEditStock st = st\<lparr>tempStock := stock st, isEditingStock := False\<rparr>"


section \<open>JSON values\<close>

text \<open>
  What \<^verbatim>\<open>JSON.parse\<close> returns. Numbers are integers, as everywhere in this model; an
  object is the list of its members in order, with distinct names.
\<close>

datatype json =
    JNull
  | JBool bool
  | JNum int
  | JStr string
  | JArr "json list"
  | JObj "(string \<times> json) list"

text \<open>Truthiness, as \<^verbatim>\<open>!v\<close>, \<^verbatim>\<open>v && ...\<close> and \<^verbatim>\<open>v || ...\<close> test it.\<close>

fun truthy :: "json \<Rightarrow> bool" where
  "truthy JNull = False"
| "truthy (JBool b) = b"
| "truthy (JNum n) = (n \<noteq> 0)"
| "truthy (JStr s) = (s \<noteq> [])"
| "truthy (JArr _) = True"
| "truthy (JObj _) = True"

text \<open>
  Reading a member \<^verbatim>\<open>v.name\<close> of a value that is not \<^verbatim>\<open>null\<close>: \<open>None\<close> is
  \<^verbatim>\<open>undefined\<close>. The names read in this program are member names of the payload and
  item names; none of them is an array index or a built-in property.
\<close>

fun member :: "json \<Rightarrow> string \<Rightarrow> json option" where
  "member (JObj kvs) name = map_of kvs name"
| "member _ name = None"

text \<open>\<^verbatim>\<open>typeof v === 'object'\<close> for a truthy \<open>v\<close>: arrays count.\<close>

fun isObject :: "json \<Rightarrow> bool" where
  "isObject (JObj _) = True"
| "isObject (JArr _) = True"
| "isObject _ = False"

text \<open>
  Fields the interfaces declare as \<^verbatim>\<open>string\<close> are read with \<^verbatim>\<open>v || dflt\<close>. A string
  is kept and a falsy value gives the default. A truthy value of another type, which the
  declared type rules out, would be kept as it is; the typed state holds the marker
  \<open>[object]\<close> for it, which like the value itself is truthy.
\<close>

fun stringOr :: "string \<Rightarrow> json option \<Rightarrow> string" where
  "stringOr dflt (Some (JStr s)) = (if s = [] then dflt else s)"
| "stringOr dflt (Some v) = (if truthy v then ''[object]'' else dflt)"
| "stringOr dflt None = dflt"

text \<open>
  \<^verbatim>\<open>Number(v) || 0\<close> on a member that may be missing: numbers are kept, booleans count 0
  and 1, a string of decimal digits with an optional sign and surrounding white space
  counts as its value, everything else (\<^verbatim>\<open>NaN\<close> included) is 0.
\<close>

definition numberOfString :: "string \<Rightarrow> int" where
  "numberOfString s =
     (let t = rev (dropWhile isWhiteSpace (rev (dropWhile isWhiteSpace s)));
          sign = (if t \<noteq> [] \<and> hd t = CHR ''-'' then - 1 else 1);
          ds = (if t \<noteq> [] \<and> (hd t = CHR ''+'' \<or> hd t = CHR ''-'') then tl t else t)
      in if ds \<noteq> [] \<and> list_all isDigit ds
         then sign * decimalValue ds
         else 0)"

fun numberOr0 :: "json option \<Rightarrow> int" where
  "numberOr0 (Some (JNum n)) = n"
| "numberOr0 (Some (JBool b)) = (if b then 1 else 0)"
| "numberOr0 (Some (JStr s)) = numberOfString s"
| "numberOr0 _ = 0"

section \<open>Loading the stock from storage (src/App.tsx lines 254-303)\<close>

text \<open>
  One catalogue item of the stock initialiser: \<open>stockItem\<close> is \<^verbatim>\<open>savedStock[item]\<close>.
\<close>

fun migrateStockItem :: "string \<Rightarrow> json option \<Rightarrow> StockItem" where
  "migrateStockItem today None = emptyStockItem"
| "migrateStockItem today (Some (JNum n)) =
     \<lparr>quantity = n, lastInDate = today, lastOutDate = [], lastUpdateQuantity = 0\<rparr>"
| "migrateStockItem today (Some (JObj kvs)) =
     (if map_of kvs ''dateAdded'' \<noteq> None
      then \<lparr>quantity = numberOr0 (map_of kvs ''quantity''),
            lastInDate = stringOr today (map_of kvs ''dateAdded''),
            lastOutDate = [], lastUpdateQuantity = 0\<rparr>
      else if map_of kvs ''quantity'' \<noteq> None \<and> map_of kvs ''lastInDate'' \<noteq> None
      then \<lparr>quantity = numberOr0 (map_of kvs ''quantity''),
            lastInDate = stringOr [] (map_of kvs ''lastInDate''),
            lastOutDate = stringOr [] (map_of kvs ''lastOutDate''),
            lastUpdateQuantity = numberOr0 (map_of kvs ''lastUpdateQuantity'')\<rparr>
      else emptyStockItem)"
| "migrateStockItem today (Some _) = emptyStockItem"

text \<open>
  The initialiser. \<open>catalogue\<close> is \<^verbatim>\<open>[...STATIONARY_ITEMS_ROW1, ...STATIONARY_ITEMS_ROW2]\<close>,
  the item names declared in the constants module, taken as a parameter; \<open>saved\<close> is the
  value parsed from storage, \<open>None\<close> when nothing is stored or parsing fails (\<^verbatim>\<open>savedStock\<close> stays
  \<^verbatim>\<open>{}\<close>). A stored \<^verbatim>\<open>null\<close> makes \<^verbatim>\<open>savedStock[item]\<close> throw outside the
  \<^verbatim>\<open>try\<close>: the result \<open>None\<close>.
\<close>

definition loadStock :: "string list \<Rightarrow> string \<Rightarrow> json option \<Rightarrow> stock_map option" where
  "loadStock catalogue today saved =
     (case saved of
        Some JNull \<Rightarrow> if catalogue = [] then Some Map.empty else None
      | _ \<Rightarrow>
          Some (\<lambda>item. if item \<in> set catalogue
                        then Some (migrateStockItem today
                                     (case saved of None \<Rightarrow> None | Some v \<Rightarrow> member v item))
                        else None))"

section \<open>PDF import (src/App.tsx lines 843-975)\<close>

text \<open>
  The collaborators of the import, each with the outcome it had in this run: \<open>Inl\<close> is
  the message of the error it threw. \<open>extractText\<close> stands for reading the file and
  concatenating the text of its pages, \<open>generateContent\<close> for the call of the text
  service on the prompt built around the extracted text (its result is
  \<^verbatim>\<open>response.text.trim()\<close>), \<open>stripFence\<close> for the removal of a code fence,
  \<open>jsonParse\<close> for \<^verbatim>\<open>JSON.parse\<close>, and \<open>importId\<close> gives the identifier made for the
  entry at a position.
\<close>

record import_io =
  extractText :: "string + string"
  generateContent :: "string \<Rightarrow> string + string"
  stripFence :: "string \<Rightarrow> string"
  jsonParse :: "string \<Rightarrow> string + json"
  importId :: "nat \<Rightarrow> string"

text \<open>
  \<^verbatim>\<open>item.items && typeof item.items === 'object' && !Array.isArray(item.items) ? item.items : {}\<close>:
  the object is taken as it is, member by member.
\<close>

fun importedItems :: "json option \<Rightarrow> item_map" where
  "importedItems (Some (JObj kvs)) = map (\<lambda>(k, v). (k, numberOr0 (Some v))) kvs"
| "importedItems _ = []"

text \<open>One entry of \<^verbatim>\<open>parsedReports.map(...)\<close>; reading a member of \<^verbatim>\<open>null\<close> throws.\<close>

definition importedReport :: "string \<Rightarrow> json \<Rightarrow> string + report" where
  "importedReport rid item =
     (if item = JNull then Inl ''Cannot read properties of null (reading 'status')''
      else Inr \<lparr>requesterName = stringOr [] (member item ''requesterName''),
                campus = stringOr [] (member item ''campus''),
                importDate = stringOr [] (member item ''importDate''),
                exportDate = stringOr [] (member item ''exportDate''),
                items = importedItems (member item ''items''),
                status = (if member item ''status'' = Some (JStr ''Done'') then Done else Process),
                report_id = rid\<rparr>)"

fun importedReports :: "(nat \<Rightarrow> string) \<Rightarrow> nat \<Rightarrow> json list \<Rightarrow> string + report list" where
  "importedReports ids n [] = Inr []"
| "importedReports ids n (item # rest) =
     (case importedReport (ids n) item of
        Inl e \<Rightarrow> Inl e
      | Inr r \<Rightarrow> (case importedReports ids (Suc n) rest of
                    Inl e \<Rightarrow> Inl e
                  | Inr rs \<Rightarrow> Inr (r # rs)))"

text \<open>\<^verbatim>\<open>.filter(r => r.requesterName && r.campus && r.importDate)\<close>\<close>

definition hasRequiredFields :: "report \<Rightarrow> bool" where
  "hasRequiredFields r = (requesterName r \<noteq> [] \<and> campus r \<noteq> [] \<and> importDate r \<noteq> [])"

text \<open>Decimal text of an array index, the key \<^verbatim>\<open>for ... in\<close> gives for an array.\<close>

fun indexKey :: "nat \<Rightarrow> string" where
  "indexKey n =
     (if n < 10 then [char_of (48 + n)] else indexKey (n div 10) @ [char_of (48 + n mod 10)])"

text \<open>The own enumerable members \<^verbatim>\<open>for (const item in parsedStock)\<close> walks.\<close>

fun ownMembers :: "json \<Rightarrow> (string \<times> json) list" where
  "ownMembers (JObj kvs) = kvs"
| "ownMembers (JArr vs) = zip (map indexKey [0..<length vs]) vs"
| "ownMembers _ = []"

text \<open>The body of that loop for one member.\<close>

definition importedStockItem :: "json \<Rightarrow> StockItem option" where
  "importedStockItem stockItem =
     (if truthy stockItem
      then (case member stockItem ''quantity'' of
              Some (JNum q) \<Rightarrow>
                Some \<lparr>quantity = q,
                      lastInDate = (case member stockItem ''lastInDate'' of
                                      Some (JStr d) \<Rightarrow> if d \<noteq> ''N/A'' then d else []
                                    | _ \<Rightarrow> []),
                      lastOutDate = [], lastUpdateQuantity = 0\<rparr>
            | _ \<Rightarrow> None)
      else None)"

definition importedStock :: "json \<Rightarrow> stock_map" where
  "importedStock parsedStock =
     fold (\<lambda>(item, stockItem) newStock.
             case importedStockItem stockItem of
               None \<Rightarrow> newStock
             | Some s \<Rightarrow> newStock(item \<mapsto> s))
       (ownMembers parsedStock) Map.empty"

text \<open>The \<^verbatim>\<open>try\<close> block up to the two state updates: what will be stored, or the
  message of the error thrown.\<close>

definition parsePayload :: "import_io \<Rightarrow> string + (report list \<times> stock_map)" where
  "parsePayload io =
     (case extractText io of
        Inl e \<Rightarrow> Inl e
      | Inr fullText \<Rightarrow>
          if dropWhile isWhiteSpace fullText = []
          then Inl ''Could not extract any text from the PDF.''
          else (case generateContent io fullText of
                  Inl e \<Rightarrow> Inl e
                | Inr jsonStr \<Rightarrow>
                    (case jsonParse io (stripFence io jsonStr) of
                       Inl e \<Rightarrow> Inl e
                     | Inr parsedData \<Rightarrow>
                         if \<not> isObject parsedData
                         then Inl ''AI response is not a valid JSON object.''
                         else (case member parsedData ''reports'' of
                                 Some (JArr parsedReports) \<Rightarrow>
                                   (case importedReports (importId io) 0 parsedReports of
                                      Inl e \<Rightarrow> Inl e
                                    | Inr rs \<Rightarrow>
                                        (case member parsedData ''stock'' of
                                           None \<Rightarrow>
                                             Inl ''AI did not return a valid object in the 'stock' key.''
                                         | Some parsedStock \<Rightarrow>
                                             if \<not> isObject parsedStock
                                             then Inl ''AI did not return a valid object in the 'stock' key.''
                                             else Inr (filter hasRequiredFields rs,
                                                       importedStock parsedStock)))
                               | _ \<Rightarrow>
                                   Inl ''AI did not return a valid array of reports in the 'reports' key.''))))"

text \<open>The handler: \<open>file\<close> tells whether a file was chosen.\<close>

definition handlePdfImport :: "bool \<Rightarrow> import_io \<Rightarrow> app_state \<Rightarrow> app_state \<times> alert option" where
  "handlePdfImport file io st =
     (if \<not> file then (st, None)
      else (case parsePayload io of
              Inl errorMessage \<Rightarrow> (st\<lparr>isImporting := False\<rparr>, Some (ImportFailed errorMessage))
            | Inr (newReports, newStock) \<Rightarrow>
                (st\<lparr>reports := newReports, stock := newStock, isImporting := False\<rparr>,
                 Some (ImportSucceeded (length newReports)))))"

section \<open>Weeks (src/App.tsx lines 611-616)\<close>










section \<open>User actions\<close>

text \<open>
  One step of the application: any handler of the form, of the report list or of the stock
  panel. The PDF import and the initial load from storage are not among them.
\<close>

inductive appStep :: "app_state \<Rightarrow> app_state \<Rightarrow> bool" where
  input: "appStep st (handleInputChange c st)"
| quantity: "appStep st (handleItemQuantityChange item v st)"
| clear: "appStep st (clearForm st)"
| add: "appStep st (fst (handleAddReport today now st))"
| select: "r \<in> set (reports st) \<Longrightarrow> appStep st (handleSelectReport r st)"
| update: "appStep st (fst (handleUpdateReport today st))"
| askDelete: "appStep st (handleDeleteReport st)"
| delete: "appStep st (handleConfirmDelete today st)"
| editStock: "appStep st (handleTempStockChange item v st)"
| saveStock: "appStep st (handleSaveStock today st)"
| cancelStock: "appStep st (handleCancelEditStock st)"
| clearStock: "appStep st (handleConfirmClearStock st)"
| effect: "appStep st (syncTempStock st)"

text \<open>Every quantity held by the draft and by the stored reports is positive.\<close>

definition positiveItems :: "item_map \<Rightarrow> bool" where
  "positiveItems its = list_all (\<lambda>(i, q). 0 < q) its"

definition itemsInvariant :: "app_state \<Rightarrow> bool" where
  "itemsInvariant st =
     (positiveItems (items (formData st))
      \<and> list_all (\<lambda>r. positiveItems (items r)) (reports st))"

section \<open>Example states\<close>

definition stockOf :: "int \<Rightarrow> string \<Rightarrow> string \<Rightarrow> int \<Rightarrow> StockItem" where
  "stockOf q i out d = \<lparr>quantity = q, lastInDate = i, lastOutDate = out, lastUpdateQuantity = d\<rparr>"

definition formOf :: "item_map \<Rightarrow> status \<Rightarrow> form_data" where
  "formOf its s =
     \<lparr>requesterName = ''Dara'', campus = ''TK'', importDate = ''2024-05-06'',
      exportDate = ''2024-05-08'', items = its, status = s\<rparr>"

definition stateOf :: "report list \<Rightarrow> form_data \<Rightarrow> string option \<Rightarrow> stock_map \<Rightarrow> app_state" where
  "stateOf rs fd sel stk =
     \<lparr>reports = rs, formData = fd, selectedReportId = sel, stock = stk, tempStock = stk,
      isEditingStock = False, isConfirmingDelete = False, isConfirmingClearStock = False,
      isImporting = False\<rparr>"

text \<open>Stock \<open>Pen: 5\<close> and a new Done request for ten pens.\<close>

definition penAdd :: app_state where
  "penAdd = stateOf [] (formOf [(''Pen'', 10)] Done) None
              [''Pen'' \<mapsto> stockOf 5 ''2024-04-01'' [] 0]"

text \<open>A stored Process report, edited to Done with ten pens against \<open>Pen: 5\<close>.\<close>

definition penPromote :: app_state where
  "penPromote = stateOf [mkReport ''r1'' (formOf [(''Pen'', 3)] Process)]
                  (formOf [(''Pen'', 10)] Done) (Some ''r1'')
                  [''Pen'' \<mapsto> stockOf 5 ''2024-04-01'' [] 0]"

text \<open>A stored Done report \<open>{Bk: 2}\<close> edited to \<open>{Bk: n}\<close>, staying Done, with \<open>Bk: 10\<close>.\<close>

definition bkEdit :: "int \<Rightarrow> app_state" where
  "bkEdit n = stateOf [mkReport ''r1'' (formOf [(''Bk'', 2)] Done)]
                (formOf [(''Bk'', n)] Done) (Some ''r1'')
                [''Bk'' \<mapsto> stockOf 10 ''2024-04-01'' [] 0]"

text \<open>A stored report \<open>{Card: 4, Glue: 1}\<close> selected for deletion, with \<open>Card: 1\<close> and no
  stock entry for Glue.\<close>

definition cardDelete :: "status \<Rightarrow> app_state" where
  "cardDelete s = stateOf [mkReport ''r1'' (formOf [(''Card'', 4), (''Glue'', 1)] s)]
                    (formOf [(''Card'', 4), (''Glue'', 1)] s) (Some ''r1'')
                    [''Card'' \<mapsto> stockOf 1 ''2024-04-01'' ''2024-04-20'' (- 4)]"

definition emptyState :: app_state where
  "emptyState = stateOf [] initialFormData None Map.empty"

text \<open>Three pens and two books are entered, the books are set back to zero, the fields
  are filled in and the report is added.\<close>

definition penEntry :: app_state where
  "penEntry =
     fst (handleAddReport ''2024-06-01'' ''2024-06-01T08:00:00.000Z''
       (handleInputChange (ExportDateInput ''2024-05-08'')
         (handleInputChange (ImportDateInput ''2024-05-06'')
           (handleInputChange (CampusInput ''TK'')
             (handleInputChange (RequesterNameInput ''Dara'')
               (handleItemQuantityChange ''Bk'' ''0''
                 (handleItemQuantityChange ''Bk'' ''2''
                   (handleItemQuantityChange ''Pen'' ''3'' emptyState))))))))"

text \<open>A payload of the shape the prompt asks for: one Done report that lists no books and
  ten pens, and a stock of five pens.\<close>

definition examplePayload :: json where
  "examplePayload =
     JObj [(''reports'',
            JArr [JObj [(''requesterName'', JStr ''Sok''), (''campus'', JStr ''TK''),
                        (''importDate'', JStr ''2024-05-06''),
                        (''exportDate'', JStr ''2024-05-08''),
                        (''items'', JObj [(''Bk'', JNum 0), (''Pen'', JNum 10)]),
                        (''status'', JStr ''Done'')]]),
           (''stock'',
            JObj [(''Pen'', JObj [(''quantity'', JNum 5),
                                  (''lastInDate'', JStr ''2024-05-01'')])])]"

text \<open>An import run in which every collaborator answers and the parser returns \<open>v\<close>.\<close>

definition answeringIo :: "json \<Rightarrow> import_io" where
  "answeringIo v =
     \<lparr>extractText = Inr ''Stationary Report'', generateContent = (\<lambda>t. Inr ''{}''),
      stripFence = (\<lambda>s. s), jsonParse = (\<lambda>s. Inr v),
      importId = (\<lambda>n. ''imported-'' @ indexKey n)\<rparr>"

text \<open>An import run in which the text of the service is not JSON.\<close>

definition malformedIo :: import_io where
  "malformedIo =
     \<lparr>extractText = Inr ''Stationary Report'', generateContent = (\<lambda>t. Inr ''Sorry''),
      stripFence = (\<lambda>s. s), jsonParse = (\<lambda>s. Inl ''Unexpected token S in JSON at position 0''),
      importId = (\<lambda>n. ''imported-'' @ indexKey n)\<rparr>"

text \<open>A stored stock in the oldest format: a bare number per item.\<close>

definition legacyStock :: json where
  "legacyStock = JObj [(''Pen'', JNum 42), (''Ruler'', JNum 7)]"

section \<open>Stock entries under the reconciliation loops\<close>

text \<open>
  Every loop rewrites one existing entry per step, so it keeps the key set, leaves the
  entries it does not name alone, and (over distinct names) acts on each entry once.
\<close>

lemma adjustEntry_apply:
  "adjustEntry i g stk k = (if k = i then map_option g (stk i) else stk k)"
  by (simp add: adjustEntry_def split: option.splits)

lemma adjustEntry_other: "k \<noteq> i \<Longrightarrow> adjustEntry i g stk k = stk k"
  by (simp add: adjustEntry_apply)

lemma adjustEntry_dom: "dom (adjustEntry i g stk) = dom stk"
  by (auto simp: adjustEntry_def split: option.splits)

lemma fold_adjust_dom:
  "dom (fold (\<lambda>x. adjustEntry (key x) (h x)) xs stk) = dom stk"
  by (induction xs arbitrary: stk) (simp_all add: adjustEntry_dom)

lemma fold_adjust_other:
  "k \<notin> key ` set xs \<Longrightarrow> fold (\<lambda>x. adjustEntry (key x) (h x)) xs stk k = stk k"
  by (induction xs arbitrary: stk) (simp_all add: adjustEntry_other)

lemma fold_adjust_distinct:
  "distinct (map key xs) \<Longrightarrow>
   fold (\<lambda>x. adjustEntry (key x) (h x)) xs stk k =
     (case find (\<lambda>x. key x = k) xs of None \<Rightarrow> stk k | Some x \<Rightarrow> map_option (h x) (stk k))"
proof (induction xs arbitrary: stk)
  case Nil
  then show ?case by simp
next
  case (Cons x xs)
  let ?stk' = "adjustEntry (key x) (h x) stk"
  have step: "fold (\<lambda>x. adjustEntry (key x) (h x)) (x # xs) stk k
                = fold (\<lambda>x. adjustEntry (key x) (h x)) xs ?stk' k"
    by simp
  show ?case
  proof (cases "key x = k")
    case True
    with Cons.prems have "k \<notin> key ` set xs" by auto
    then have "fold (\<lambda>x. adjustEntry (key x) (h x)) xs ?stk' k = ?stk' k"
      by (rule fold_adjust_other)
    also have "?stk' k = map_option (h x) (stk k)"
      using True by (simp add: adjustEntry_apply)
    finally show ?thesis using True step by simp
  next
    case False
    have "?stk' k = stk k"
      using False by (simp add: adjustEntry_apply)
    moreover have "distinct (map key xs)" using Cons.prems by simp
    ultimately show ?thesis using Cons.IH [of ?stk'] False step by (simp split: option.splits)
  qed
qed

lemma uniq_set: "set (uniq xs) = set xs"
  by (induction xs) auto

lemma uniq_distinct: "distinct (uniq xs)"
  by (induction xs) (auto simp: uniq_set)

lemma find_key_map_of:
  "find (\<lambda>x. fst x = k) its = (case map_of its k of None \<Rightarrow> None | Some q \<Rightarrow> Some (k, q))"
  by (induction its) (auto split: option.splits)

lemma find_eq_key: "find (\<lambda>x. x = k) ks = (if k \<in> set ks then Some k else None)"
  by (induction ks) auto

lemma map_of_distinct_mem:
  "distinct (map fst its) \<Longrightarrow> (i, q) \<in> set its \<Longrightarrow> map_of its i = Some q"
  by simp

lemma deductItems_apply:
  "distinct (map fst its) \<Longrightarrow>
   deductItems today its stk k =
     (case map_of its k of None \<Rightarrow> stk k | Some q \<Rightarrow> map_option (takeOut today q) (stk k))"
  unfolding deductItems_def case_prod_beta
  by (simp add: fold_adjust_distinct [where key = fst] find_key_map_of split: option.splits)

lemma addBackItems_apply:
  "distinct (map fst its) \<Longrightarrow>
   addBackItems today its stk k =
     (case map_of its k of None \<Rightarrow> stk k | Some q \<Rightarrow> map_option (putBack today q) (stk k))"
  unfolding addBackItems_def case_prod_beta
  by (simp add: fold_adjust_distinct [where key = fst] find_key_map_of split: option.splits)

lemma reconcileDelta_apply:
  "reconcileDelta today orig upd stk k =
     (if k \<in> fst ` set orig \<union> fst ` set upd
      then map_option (applyDelta today (qtyOf orig k - qtyOf upd k)) (stk k)
      else stk k)"
proof -
  let ?ks = "allItemNames orig upd"
  have d: "distinct (map (\<lambda>i. i) ?ks)" by (simp add: allItemNames_def uniq_distinct)
  have s: "set ?ks = fst ` set orig \<union> fst ` set upd"
    by (simp add: allItemNames_def uniq_set)
  have f: "find (\<lambda>x. x = k) ?ks = (if k \<in> set ?ks then Some k else None)"
    by (rule find_eq_key)
  show ?thesis
    unfolding reconcileDelta_def
    using fold_adjust_distinct [OF d, of "\<lambda>i. applyDelta today (qtyOf orig i - qtyOf upd i)" stk k]
    by (simp add: f s)
qed

lemma deductItems_dom: "dom (deductItems today its stk) = dom stk"
  unfolding deductItems_def case_prod_beta by (rule fold_adjust_dom)

lemma addBackItems_dom: "dom (addBackItems today its stk) = dom stk"
  unfolding addBackItems_def case_prod_beta by (rule fold_adjust_dom)

lemma reconcileDelta_dom: "dom (reconcileDelta today orig upd stk) = dom stk"
  unfolding reconcileDelta_def by (rule fold_adjust_dom)

lemma updateStock_dom: "dom (updateStock today orig upd stk) = dom stk"
  by (simp add: updateStock_def deductItems_dom addBackItems_dom reconcileDelta_dom)

lemma handleAdd_dom: "dom (stock (fst (handleAddReport today now st))) = dom (stock st)"
  by (simp add: handleAddReport_def Let_def clearForm_def deductItems_dom)

lemma handleUpdate_dom: "dom (stock (fst (handleUpdateReport today st))) = dom (stock st)"
  by (simp add: handleUpdateReport_def clearForm_def updateStock_dom split: option.splits)

lemma handleDelete_dom: "dom (stock (handleConfirmDelete today st)) = dom (stock st)"
  by (simp add: handleConfirmDelete_def clearForm_def addBackItems_dom split: option.splits)

section \<open>Shortfall check\<close>

lemma insufficientItems_set:
  "set (insufficientItems stk its) =
     {\<lparr>sf_item = i, requested = q, available = availableQty stk i\<rparr> | i q.
        (i, q) \<in> set its \<and> availableQty stk i < q}"
  by (auto simp: insufficientItems_def)

lemma insufficientItems_nonempty:
  "insufficientItems stk its \<noteq> [] \<longleftrightarrow> (\<exists>(i, q) \<in> set its. availableQty stk i < q)"
  by (auto simp: insufficientItems_def filter_empty_conv)

lemma insufficientDelta_set:
  "set (insufficientDelta stk orig upd) =
     {\<lparr>sf_item = i, requested = qtyOf upd i - qtyOf orig i, available = availableQty stk i\<rparr> | i.
        i \<in> fst ` set orig \<union> fst ` set upd \<and> 0 < qtyOf upd i - qtyOf orig i
        \<and> availableQty stk i < qtyOf upd i - qtyOf orig i}"
  by (auto simp: insufficientDelta_def allItemNames_def uniq_set)

lemma insufficientDelta_nonempty:
  "insufficientDelta stk orig upd \<noteq> [] \<longleftrightarrow>
     (\<exists>i \<in> fst ` set orig \<union> fst ` set upd.
        qtyOf upd i - qtyOf orig i > 0 \<and> availableQty stk i < qtyOf upd i - qtyOf orig i)"
  by (auto simp: insufficientDelta_def filter_empty_conv allItemNames_def uniq_set)

lemma handleAdd_rejected:
  "\<not> missingFields (formData st) \<Longrightarrow> status (formData st) = Done \<Longrightarrow>
   insufficientItems (stock st) (items (formData st)) \<noteq> [] \<Longrightarrow>
   handleAddReport today now st =
     (st, Some (CannotAddReport (insufficientItems (stock st) (items (formData st)))))"
  by (simp add: handleAddReport_def Let_def)

lemma handleAdd_frame:
  "status (formData st) = Done \<Longrightarrow>
   insufficientItems (stock st) (items (formData st)) \<noteq> [] \<Longrightarrow>
   fst (handleAddReport today now st) = st"
  by (simp add: handleAddReport_def Let_def)

lemma handleUpdate_rejected:
  "selectedReportId st = Some sid \<Longrightarrow> sid \<noteq> [] \<Longrightarrow>
   find (\<lambda>r. report_id r = sid) (reports st) = Some orig \<Longrightarrow>
   updateShortfalls (stock st) orig (formData st) \<noteq> [] \<Longrightarrow>
   handleUpdateReport today st =
     (st, Some (CannotUpdateReport (updateShortfalls (stock st) orig (formData st))))"
  by (simp add: handleUpdateReport_def)

text \<open>
  Claim C1. A transition that consumes stock (adding a report with status Done, updating
  Process to Done, updating Done to Done with an item whose quantity grows) is rejected as
  a whole when some item asks for more than is available: the state returned is the state
  given (stock and report list included), and the alert carries exactly the items that
  fall short, each with the quantity requested and the quantity available. For the add
  the state is unchanged whether or not the form is complete; the shortfall list is the
  message once the required fields are filled in.
\<close>

theorem insufficient_stock_rejects_whole_operation:
  "(status (formData st) = Done \<and>
    (\<exists>(i, q) \<in> set (items (formData st)). availableQty (stock st) i < q)
    \<longrightarrow> fst (handleAddReport today now st) = st
        \<and> (\<not> missingFields (formData st) \<longrightarrow>
             (\<exists>sfs. snd (handleAddReport today now st) = Some (CannotAddReport sfs)
                \<and> set sfs =
                    {\<lparr>sf_item = i, requested = q, available = availableQty (stock st) i\<rparr> | i q.
                       (i, q) \<in> set (items (formData st)) \<and> availableQty (stock st) i < q})))
   \<and> (selectedReportId st = Some sid \<and> sid \<noteq> []
        \<and> find (\<lambda>r. report_id r = sid) (reports st) = Some orig
        \<and> status orig = Process \<and> status (formData st) = Done
        \<and> (\<exists>(i, q) \<in> set (items (formData st)). availableQty (stock st) i < q)
        \<longrightarrow> fst (handleUpdateReport today st) = st
            \<and> (\<exists>sfs. snd (handleUpdateReport today st) = Some (CannotUpdateReport sfs)
                  \<and> set sfs =
                      {\<lparr>sf_item = i, requested = q, available = availableQty (stock st) i\<rparr> | i q.
                         (i, q) \<in> set (items (formData st)) \<and> availableQty (stock st) i < q}))
   \<and> (selectedReportId st = Some sid \<and> sid \<noteq> []
        \<and> find (\<lambda>r. report_id r = sid) (reports st) = Some orig
        \<and> status orig = Done \<and> status (formData st) = Done
        \<and> (\<exists>i \<in> fst ` set (items orig) \<union> fst ` set (items (formData st)).
               0 < qtyOf (items (formData st)) i - qtyOf (items orig) i
               \<and> availableQty (stock st) i < qtyOf (items (formData st)) i - qtyOf (items orig) i)
        \<longrightarrow> fst (handleUpdateReport today st) = st
            \<and> (\<exists>sfs. snd (handleUpdateReport today st) = Some (CannotUpdateReport sfs)
                  \<and> set sfs =
                      {\<lparr>sf_item = i,
                        requested = qtyOf (items (formData st)) i - qtyOf (items orig) i,
                        available = availableQty (stock st) i\<rparr> | i.
                         i \<in> fst ` set (items orig) \<union> fst ` set (items (formData st))
                         \<and> 0 < qtyOf (items (formData st)) i - qtyOf (items orig) i
                         \<and> availableQty (stock st) i
                             < qtyOf (items (formData st)) i - qtyOf (items orig) i}))"
proof (intro conjI impI)
  assume h: "status (formData st) = Done \<and>
    (\<exists>(i, q) \<in> set (items (formData st)). availableQty (stock st) i < q)"
  then have ne: "insufficientItems (stock st) (items (formData st)) \<noteq> []"
    by (simp add: insufficientItems_nonempty)
  from h ne show "fst (handleAddReport today now st) = st"
    by (simp add: handleAdd_frame)
  assume "\<not> missingFields (formData st)"
  with h ne have "snd (handleAddReport today now st)
      = Some (CannotAddReport (insufficientItems (stock st) (items (formData st))))"
    by (simp add: handleAdd_rejected)
  then show "\<exists>sfs. snd (handleAddReport today now st) = Some (CannotAddReport sfs)
      \<and> set sfs =
          {\<lparr>sf_item = i, requested = q, available = availableQty (stock st) i\<rparr> | i q.
             (i, q) \<in> set (items (formData st)) \<and> availableQty (stock st) i < q}"
    using insufficientItems_set by blast
next
  assume h: "selectedReportId st = Some sid \<and> sid \<noteq> []
        \<and> find (\<lambda>r. report_id r = sid) (reports st) = Some orig
        \<and> status orig = Process \<and> status (formData st) = Done
        \<and> (\<exists>(i, q) \<in> set (items (formData st)). availableQty (stock st) i < q)"
  then have sf: "updateShortfalls (stock st) orig (formData st)
                   = insufficientItems (stock st) (items (formData st))"
    by (simp add: updateShortfalls_def)
  from h have ne: "insufficientItems (stock st) (items (formData st)) \<noteq> []"
    by (simp add: insufficientItems_nonempty)
  with h sf have r: "handleUpdateReport today st =
      (st, Some (CannotUpdateReport (insufficientItems (stock st) (items (formData st)))))"
    using handleUpdate_rejected [of st sid orig today] by simp
  then show "fst (handleUpdateReport today st) = st" by simp
  from r show "\<exists>sfs. snd (handleUpdateReport today st) = Some (CannotUpdateReport sfs)
      \<and> set sfs =
          {\<lparr>sf_item = i, requested = q, available = availableQty (stock st) i\<rparr> | i q.
             (i, q) \<in> set (items (formData st)) \<and> availableQty (stock st) i < q}"
    using insufficientItems_set by (metis snd_conv)
next
  assume h: "selectedReportId st = Some sid \<and> sid \<noteq> []
        \<and> find (\<lambda>r. report_id r = sid) (reports st) = Some orig
        \<and> status orig = Done \<and> status (formData st) = Done
        \<and> (\<exists>i \<in> fst ` set (items orig) \<union> fst ` set (items (formData st)).
               0 < qtyOf (items (formData st)) i - qtyOf (items orig) i
               \<and> availableQty (stock st) i < qtyOf (items (formData st)) i - qtyOf (items orig) i)"
  then have sf: "updateShortfalls (stock st) orig (formData st)
                   = insufficientDelta (stock st) (items orig) (items (formData st))"
    by (simp add: updateShortfalls_def)
  from h have ne: "insufficientDelta (stock st) (items orig) (items (formData st)) \<noteq> []"
    by (simp only: insufficientDelta_nonempty)
  with h sf have r: "handleUpdateReport today st =
      (st, Some (CannotUpdateReport
                   (insufficientDelta (stock st) (items orig) (items (formData st)))))"
    using handleUpdate_rejected [of st sid orig today] by simp
  then show "fst (handleUpdateReport today st) = st" by simp
  from r show "\<exists>sfs. snd (handleUpdateReport today st) = Some (CannotUpdateReport sfs)
      \<and> set sfs =
          {\<lparr>sf_item = i,
            requested = qtyOf (items (formData st)) i - qtyOf (items orig) i,
            available = availableQty (stock st) i\<rparr> | i.
             i \<in> fst ` set (items orig) \<union> fst ` set (items (formData st))
             \<and> 0 < qtyOf (items (formData st)) i - qtyOf (items orig) i
             \<and> availableQty (stock st) i
                 < qtyOf (items (formData st)) i - qtyOf (items orig) i}"
    using insufficientDelta_set by (metis snd_conv)
qed

theorem insufficient_stock_rejects_whole_operation_witness:
  "status (formData penAdd) = Done
   \<and> availableQty (stock penAdd) ''Pen'' < 10
   \<and> selectedReportId penPromote = Some ''r1''
   \<and> find (\<lambda>r. report_id r = ''r1'') (reports penPromote)
       = Some (mkReport ''r1'' (formOf [(''Pen'', 3)] Process))
   \<and> selectedReportId (bkEdit 20) = Some ''r1''
   \<and> find (\<lambda>r. report_id r = ''r1'') (reports (bkEdit 20))
       = Some (mkReport ''r1'' (formOf [(''Bk'', 2)] Done))
   \<and> handleAddReport ''2024-06-01'' ''2024-06-01T08:00:00.000Z'' penAdd
       = (penAdd, Some (CannotAddReport [\<lparr>sf_item = ''Pen'', requested = 10, available = 5\<rparr>]))
   \<and> handleUpdateReport ''2024-06-01'' penPromote
       = (penPromote,
          Some (CannotUpdateReport [\<lparr>sf_item = ''Pen'', requested = 10, available = 5\<rparr>]))
   \<and> handleUpdateReport ''2024-06-01'' (bkEdit 20)
       = (bkEdit 20,
          Some (CannotUpdateReport [\<lparr>sf_item = ''Bk'', requested = 18, available = 10\<rparr>]))"
proof -
  have add: "handleAddReport ''2024-06-01'' ''2024-06-01T08:00:00.000Z'' penAdd
       = (penAdd, Some (CannotAddReport [\<lparr>sf_item = ''Pen'', requested = 10, available = 5\<rparr>]))"
    by (simp add: handleAddReport_def penAdd_def stateOf_def formOf_def stockOf_def
        missingFields_def insufficientItems_def availableQty_def Let_def)
  have promote: "handleUpdateReport ''2024-06-01'' penPromote
       = (penPromote,
          Some (CannotUpdateReport [\<lparr>sf_item = ''Pen'', requested = 10, available = 5\<rparr>]))"
    by (simp add: handleUpdateReport_def penPromote_def stateOf_def formOf_def stockOf_def
        mkReport_def updateShortfalls_def insufficientItems_def availableQty_def)
  have edit: "handleUpdateReport ''2024-06-01'' (bkEdit 20)
       = (bkEdit 20,
          Some (CannotUpdateReport [\<lparr>sf_item = ''Bk'', requested = 18, available = 10\<rparr>]))"
    by (simp add: handleUpdateReport_def bkEdit_def stateOf_def formOf_def stockOf_def
        mkReport_def updateShortfalls_def insufficientDelta_def allItemNames_def qtyOf_def
        availableQty_def)
  have hyp: "status (formData penAdd) = Done \<and> availableQty (stock penAdd) ''Pen'' < 10"
    by (simp add: penAdd_def stateOf_def formOf_def stockOf_def availableQty_def)
  have sel: "selectedReportId penPromote = Some ''r1''"
     "find (\<lambda>r. report_id r = ''r1'') (reports penPromote)
        = Some (mkReport ''r1'' (formOf [(''Pen'', 3)] Process))"
     "selectedReportId (bkEdit 20) = Some ''r1''"
     "find (\<lambda>r. report_id r = ''r1'') (reports (bkEdit 20))
        = Some (mkReport ''r1'' (formOf [(''Bk'', 2)] Done))"
    by (simp_all add: penPromote_def bkEdit_def stateOf_def mkReport_def)
  show ?thesis
    using insufficient_stock_rejects_whole_operation
            [of penAdd "''2024-06-01''" "''2024-06-01T08:00:00.000Z''" "''r1''"
                "mkReport ''r1'' (formOf [(''Pen'', 3)] Process)"]
          insufficient_stock_rejects_whole_operation
            [of penPromote "''2024-06-01''" "''2024-06-01T08:00:00.000Z''" "''r1''"
                "mkReport ''r1'' (formOf [(''Pen'', 3)] Process)"]
          insufficient_stock_rejects_whole_operation
            [of "bkEdit 20" "''2024-06-01''" "''2024-06-01T08:00:00.000Z''" "''r1''"
                "mkReport ''r1'' (formOf [(''Bk'', 2)] Done)"]
          add promote edit hyp sel
    by simp
qed

section \<open>Updating a report that stays Done\<close>

lemma updateStock_done_done:
  "status orig = Done \<Longrightarrow> status upd = Done \<Longrightarrow>
   updateStock today orig upd stk = reconcileDelta today (items orig) (items upd) stk"
  by (simp add: updateStock_def)

lemma handleUpdate_accepted:
  "selectedReportId st = Some sid \<Longrightarrow> sid \<noteq> [] \<Longrightarrow>
   find (\<lambda>r. report_id r = sid) (reports st) = Some orig \<Longrightarrow>
   snd (handleUpdateReport today st) = None \<Longrightarrow>
   stock (fst (handleUpdateReport today st)) = updateStock today orig (formData st) (stock st)"
  by (simp add: handleUpdateReport_def clearForm_def split: if_splits)

text \<open>
  Claim C2. When an accepted update leaves a report in status Done, every stock entry
  changes by the item's delta only: its quantity drops by new quantity minus old quantity.
  With the code's delta (old minus new) negative, more was taken and lastOutDate becomes
  today; with it positive, items came back and lastInDate becomes today; with equal
  quantities the entry is untouched. Editing \<open>{Bk: 2}\<close> to \<open>{Bk: 5}\<close> with ten in stock
  leaves seven and sets lastOutDate.
\<close>

theorem done_to_done_applies_only_the_delta:
  assumes "selectedReportId st = Some sid" and "sid \<noteq> []"
    and "find (\<lambda>r. report_id r = sid) (reports st) = Some orig"
    and "status orig = Done" and "status (formData st) = Done"
    and "snd (handleUpdateReport today st) = None"
    and "stock st k = Some s"
  shows "\<exists>s'. stock (fst (handleUpdateReport today st)) k = Some s'
           \<and> quantity s' = quantity s - (qtyOf (items (formData st)) k - qtyOf (items orig) k)
           \<and> (qtyOf (items orig) k - qtyOf (items (formData st)) k < 0
                \<longrightarrow> lastOutDate s' = today \<and> lastInDate s' = lastInDate s)
           \<and> (qtyOf (items orig) k - qtyOf (items (formData st)) k > 0
                \<longrightarrow> lastInDate s' = today \<and> lastOutDate s' = lastOutDate s)
           \<and> (qtyOf (items orig) k = qtyOf (items (formData st)) k \<longrightarrow> s' = s)"
proof -
  let ?d = "qtyOf (items orig) k - qtyOf (items (formData st)) k"
  have "stock (fst (handleUpdateReport today st)) k
          = reconcileDelta today (items orig) (items (formData st)) (stock st) k"
    using assms by (simp add: handleUpdate_accepted updateStock_done_done)
  also have "\<dots> = Some (applyDelta today ?d s)"
  proof (cases "k \<in> fst ` set (items orig) \<union> fst ` set (items (formData st))")
    case True
    then show ?thesis using assms(7) by (simp add: reconcileDelta_apply)
  next
    case False
    then have "map_of (items orig) k = None" and "map_of (items (formData st)) k = None"
      by (simp_all add: map_of_eq_None_iff)
    then have "?d = 0" by (simp add: qtyOf_def)
    then show ?thesis using False assms(7) by (simp add: reconcileDelta_apply applyDelta_def)
  qed
  finally have "stock (fst (handleUpdateReport today st)) k = Some (applyDelta today ?d s)" .
  then show ?thesis by (auto simp: applyDelta_def)
qed

theorem done_to_done_applies_only_the_delta_witness:
  "selectedReportId (bkEdit 5) = Some ''r1''
   \<and> find (\<lambda>r. report_id r = ''r1'') (reports (bkEdit 5))
       = Some (mkReport ''r1'' (formOf [(''Bk'', 2)] Done))
   \<and> snd (handleUpdateReport ''2024-06-01'' (bkEdit 5)) = None
   \<and> stock (bkEdit 5) ''Bk'' = Some (stockOf 10 ''2024-04-01'' [] 0)
   \<and> stock (fst (handleUpdateReport ''2024-06-01'' (bkEdit 5))) ''Bk''
       = Some (stockOf 7 ''2024-04-01'' ''2024-06-01'' (- 3))"
proof -
  have run: "handleUpdateReport ''2024-06-01'' (bkEdit 5)
      = (clearForm ((bkEdit 5)
           \<lparr>stock := [''Bk'' \<mapsto> stockOf 7 ''2024-04-01'' ''2024-06-01'' (- 3)],
            reports := [mkReport ''r1'' (formOf [(''Bk'', 5)] Done)]\<rparr>), None)"
    by (simp add: handleUpdateReport_def bkEdit_def stateOf_def formOf_def stockOf_def
        mkReport_def updateShortfalls_def insufficientDelta_def allItemNames_def qtyOf_def
        availableQty_def updateStock_def reconcileDelta_def adjustEntry_def applyDelta_def)
  have pre: "selectedReportId (bkEdit 5) = Some ''r1''"
     "find (\<lambda>r. report_id r = ''r1'') (reports (bkEdit 5))
       = Some (mkReport ''r1'' (formOf [(''Bk'', 2)] Done))"
     "stock (bkEdit 5) ''Bk'' = Some (stockOf 10 ''2024-04-01'' [] 0)"
    by (simp_all add: bkEdit_def stateOf_def mkReport_def)
  have st: "status (mkReport ''r1'' (formOf [(''Bk'', 2)] Done)) = Done"
     "status (formData (bkEdit 5)) = Done"
    by (simp_all add: bkEdit_def stateOf_def mkReport_def formOf_def)
  have acc: "snd (handleUpdateReport ''2024-06-01'' (bkEdit 5)) = None"
    using run by simp
  from done_to_done_applies_only_the_delta [OF pre(1) _ pre(2) st acc pre(3)]
  have "\<exists>s'. stock (fst (handleUpdateReport ''2024-06-01'' (bkEdit 5))) ''Bk'' = Some s'"
    by auto
  moreover have "stock (fst (handleUpdateReport ''2024-06-01'' (bkEdit 5))) ''Bk''
       = Some (stockOf 7 ''2024-04-01'' ''2024-06-01'' (- 3))"
    using run by (simp add: clearForm_def)
  ultimately show ?thesis using pre acc by simp
qed

section \<open>Deleting a report\<close>

lemma handleConfirmDelete_stock:
  "selectedReportId st = Some sid \<Longrightarrow> sid \<noteq> [] \<Longrightarrow>
   find (\<lambda>r. report_id r = sid) (reports st) = Some r \<Longrightarrow>
   stock (handleConfirmDelete today st)
     = (if status r = Done then addBackItems today (items r) (stock st) else stock st)"
  by (simp add: handleConfirmDelete_def clearForm_def)

text \<open>
  Claim C6. Deleting a report whose status was Done adds each of its item quantities back
  to the stock entry of that item and sets that entry's lastInDate to today; deleting a
  report whose status was Process leaves the stock as it was. With \<open>Card: 1\<close> in stock,
  deleting a Done report holding \<open>{Card: 4}\<close> gives \<open>Card: 5\<close>.
\<close>

theorem deleting_done_report_restores_stock:
  assumes "selectedReportId st = Some sid" and "sid \<noteq> []"
    and "find (\<lambda>r. report_id r = sid) (reports st) = Some r"
    and "distinct (map fst (items r))"
  shows "(status r = Done \<longrightarrow>
            (\<forall>(i, q) \<in> set (items r). \<forall>s. stock st i = Some s \<longrightarrow>
               stock (handleConfirmDelete today st) i
                 = Some (s\<lparr>quantity := quantity s + q, lastInDate := today,
                           lastUpdateQuantity := q\<rparr>)))
         \<and> (status r = Process \<longrightarrow> stock (handleConfirmDelete today st) = stock st)"
proof (intro conjI impI)
  assume d: "status r = Done"
  show "\<forall>(i, q) \<in> set (items r). \<forall>s. stock st i = Some s \<longrightarrow>
               stock (handleConfirmDelete today st) i
                 = Some (s\<lparr>quantity := quantity s + q, lastInDate := today,
                           lastUpdateQuantity := q\<rparr>)"
  proof (clarify)
    fix i q s
    assume mem: "(i, q) \<in> set (items r)" and s: "stock st i = Some s"
    from assms(4) mem have "map_of (items r) i = Some q" by (rule map_of_distinct_mem)
    then have "addBackItems today (items r) (stock st) i = Some (putBack today q s)"
      using assms(4) s by (simp add: addBackItems_apply)
    then show "stock (handleConfirmDelete today st) i
                 = Some (s\<lparr>quantity := quantity s + q, lastInDate := today,
                           lastUpdateQuantity := q\<rparr>)"
      using assms(1-3) d by (simp add: handleConfirmDelete_stock putBack_def)
  qed
next
  assume "status r = Process"
  then show "stock (handleConfirmDelete today st) = stock st"
    using assms(1-3) by (simp add: handleConfirmDelete_stock)
qed

theorem deleting_done_report_restores_stock_witness:
  "selectedReportId (cardDelete Done) = Some ''r1''
   \<and> find (\<lambda>r. report_id r = ''r1'') (reports (cardDelete Done))
       = Some (mkReport ''r1'' (formOf [(''Card'', 4), (''Glue'', 1)] Done))
   \<and> stock (cardDelete Done) ''Card'' = Some (stockOf 1 ''2024-04-01'' ''2024-04-20'' (- 4))
   \<and> stock (handleConfirmDelete ''2024-06-01'' (cardDelete Done)) ''Card''
       = Some (stockOf 5 ''2024-06-01'' ''2024-04-20'' 4)
   \<and> stock (handleConfirmDelete ''2024-06-01'' (cardDelete Process)) = stock (cardDelete Process)"
proof -
  let ?r = "\<lambda>s. mkReport ''r1'' (formOf [(''Card'', 4), (''Glue'', 1)] s)"
  have pre: "selectedReportId (cardDelete s) = Some ''r1''"
    "find (\<lambda>r. report_id r = ''r1'') (reports (cardDelete s)) = Some (?r s)"
    "stock (cardDelete s) ''Card'' = Some (stockOf 1 ''2024-04-01'' ''2024-04-20'' (- 4))"
    "distinct (map fst (items (?r s)))" "status (?r s) = s" for s
    by (simp_all add: cardDelete_def stateOf_def mkReport_def formOf_def)
  have ne: "''r1'' \<noteq> []" by simp
  note dn = deleting_done_report_restores_stock
                [OF pre(1) ne pre(2) pre(4), of Done "''2024-06-01''"]
  note proc = deleting_done_report_restores_stock
                [OF pre(1) ne pre(2) pre(4), of Process "''2024-06-01''"]
  have mem: "(''Card'', 4) \<in> set (items (?r Done))"
    by (simp add: mkReport_def formOf_def)
  from dn pre(5) [of Done] mem pre(3) [of Done]
  have "stock (handleConfirmDelete ''2024-06-01'' (cardDelete Done)) ''Card''
       = Some ((stockOf 1 ''2024-04-01'' ''2024-04-20'' (- 4))
                 \<lparr>quantity := quantity (stockOf 1 ''2024-04-01'' ''2024-04-20'' (- 4)) + 4,
                  lastInDate := ''2024-06-01'', lastUpdateQuantity := 4\<rparr>)"
    by blast
  then have a: "stock (handleConfirmDelete ''2024-06-01'' (cardDelete Done)) ''Card''
       = Some (stockOf 5 ''2024-06-01'' ''2024-04-20'' 4)"
    by (simp add: stockOf_def)
  from proc pre(5) [of Process]
  have b: "stock (handleConfirmDelete ''2024-06-01'' (cardDelete Process))
             = stock (cardDelete Process)"
    by simp
  show ?thesis using a b pre(1-3) [of Done] by simp
qed

section \<open>Keys of the stock mapping\<close>

text \<open>
  Claim C10. Adding, updating and deleting a report keep the key set of the stock mapping:
  no handler creates an entry. An item a report names that has no stock entry is skipped,
  so after deleting a Done report every entry is either as before or has received its own
  item's quantity, and the quantity of the missing item is restored nowhere.
\<close>

theorem reconciliation_never_creates_stock_keys:
  "dom (stock (fst (handleAddReport today now st))) = dom (stock st)
   \<and> dom (stock (fst (handleUpdateReport today st))) = dom (stock st)
   \<and> dom (stock (handleConfirmDelete today st)) = dom (stock st)
   \<and> (selectedReportId st = Some sid \<and> sid \<noteq> []
        \<and> find (\<lambda>r. report_id r = sid) (reports st) = Some r \<and> status r = Done
        \<and> distinct (map fst (items r))
        \<longrightarrow> stock (handleConfirmDelete today st) k
              = (case stock st k of
                   None \<Rightarrow> None
                 | Some s \<Rightarrow> (case map_of (items r) k of
                                None \<Rightarrow> Some s
                              | Some q \<Rightarrow> Some (putBack today q s))))"
  by (simp add: handleAdd_dom handleUpdate_dom handleDelete_dom handleConfirmDelete_stock
      addBackItems_apply split: option.splits)

theorem reconciliation_never_creates_stock_keys_witness:
  "(''Glue'', 1) \<in> set (items (mkReport ''r1'' (formOf [(''Card'', 4), (''Glue'', 1)] Done)))
   \<and> stock (cardDelete Done) ''Glue'' = None
   \<and> dom (stock (handleConfirmDelete ''2024-06-01'' (cardDelete Done))) = {''Card''}
   \<and> stock (handleConfirmDelete ''2024-06-01'' (cardDelete Done)) ''Glue'' = None
   \<and> stock (handleConfirmDelete ''2024-06-01'' (cardDelete Done)) ''Card''
       = Some (stockOf 5 ''2024-06-01'' ''2024-04-20'' 4)"
proof -
  let ?r = "mkReport ''r1'' (formOf [(''Card'', 4), (''Glue'', 1)] Done)"
  have pre: "selectedReportId (cardDelete Done) = Some ''r1'' \<and> ''r1'' \<noteq> []
    \<and> find (\<lambda>r. report_id r = ''r1'') (reports (cardDelete Done)) = Some ?r
    \<and> status ?r = Done \<and> distinct (map fst (items ?r))"
    by (simp add: cardDelete_def stateOf_def mkReport_def formOf_def)
  have stk: "stock (cardDelete Done) = [''Card'' \<mapsto> stockOf 1 ''2024-04-01'' ''2024-04-20'' (- 4)]"
    by (simp add: cardDelete_def stateOf_def)
  have its: "items ?r = [(''Card'', 4), (''Glue'', 1)]"
    by (simp add: mkReport_def formOf_def)
  note t = reconciliation_never_creates_stock_keys
             [of "''2024-06-01''" "''now''" "cardDelete Done" "''r1''" ?r]
  from t have d: "dom (stock (handleConfirmDelete ''2024-06-01'' (cardDelete Done)))
                    = dom (stock (cardDelete Done))"
    by simp
  from t [of "''Glue''"] pre have g:
    "stock (handleConfirmDelete ''2024-06-01'' (cardDelete Done)) ''Glue'' = None"
    by (simp add: stk)
  from t [of "''Card''"] pre have c:
    "stock (handleConfirmDelete ''2024-06-01'' (cardDelete Done)) ''Card''
       = Some (stockOf 5 ''2024-06-01'' ''2024-04-20'' 4)"
    by (simp add: stk its putBack_def stockOf_def)
  show ?thesis using d g c by (simp add: stk its)
qed

section \<open>Bulk clear\<close>

text \<open>
  Claim C4, as the code has it. Clearing the stock keeps the keys and resets every entry to
  the empty entry: quantity 0, lastUpdateQuantity 0, and both dates the empty string. The
  dates are therefore not preserved, as the example after the theorem shows for an entry
  that had both.
\<close>

theorem clear_stock_resets_every_entry:
  "stock (handleConfirmClearStock st) k
     = (case stock st k of
          None \<Rightarrow> None
        | Some s \<Rightarrow> Some \<lparr>quantity = 0, lastInDate = [], lastOutDate = [],
                           lastUpdateQuantity = 0\<rparr>)"
  by (simp add: handleConfirmClearStock_def emptyStockItem_def split: option.splits)

theorem clear_stock_resets_every_entry_witness:
  "stock (cardDelete Done) ''Card'' = Some (stockOf 1 ''2024-04-01'' ''2024-04-20'' (- 4))
   \<and> stock (handleConfirmClearStock (cardDelete Done)) ''Card'' = Some (stockOf 0 [] [] 0)
   \<and> stock (handleConfirmClearStock (cardDelete Done)) ''Glue'' = None"
  using clear_stock_resets_every_entry [of "cardDelete Done" "''Card''"]
        clear_stock_resets_every_entry [of "cardDelete Done" "''Glue''"]
  by (simp add: cardDelete_def stateOf_def stockOf_def)

theorem clear_stock_dates_untouched_counterexample:
  "map_option lastInDate (stock (handleConfirmClearStock (cardDelete Done)) ''Card'')
     \<noteq> map_option lastInDate (stock (cardDelete Done) ''Card'')
   \<and> map_option lastOutDate (stock (handleConfirmClearStock (cardDelete Done)) ''Card'')
     \<noteq> map_option lastOutDate (stock (cardDelete Done) ''Card'')"
  by (simp add: handleConfirmClearStock_def emptyStockItem_def cardDelete_def stateOf_def
      stockOf_def)

section \<open>Manual stock edit\<close>







lemma parseInt_examples:
  "parseInt ''3'' = Some 3" "parseInt ''2'' = Some 2" "parseInt ''0'' = Some 0"
  "parseInt ''-3'' = Some (- 3)" "parseInt ''abc'' = None" "parseInt ''12'' = Some 12"
  by (simp_all add: parseInt_def isWhiteSpace_def isDigit_def digitValue_def decimalValue_def
      Let_def)



section \<open>Quantities held by reports\<close>

lemma positive_delete: "positiveItems its \<Longrightarrow> positiveItems (AList.delete k its)"
  by (simp add: positiveItems_def AList.delete_eq list_all_iff)

lemma positive_update: "positiveItems its \<Longrightarrow> 0 < q \<Longrightarrow> positiveItems (AList.update k q its)"
  by (induction its) (auto simp: positiveItems_def)

lemma delete_not_key: "k \<notin> fst ` set (AList.delete k its)"
  by (auto simp: AList.delete_eq)

lemma itemChange_positive:
  "positiveItems (items (formData st)) \<Longrightarrow>
   positiveItems (items (formData (handleItemQuantityChange item v st)))"
  by (simp add: handleItemQuantityChange_def positive_delete positive_update split: option.splits)

lemma itemChange_removes:
  "(case parseInt v of None \<Rightarrow> True | Some q \<Rightarrow> q \<le> 0) \<Longrightarrow>
   item \<notin> fst ` set (items (formData (handleItemQuantityChange item v st)))"
  using delete_not_key [of item "items (formData st)"]
  by (simp add: handleItemQuantityChange_def split: option.splits)

lemma itemChange_reports: "reports (handleItemQuantityChange item v st) = reports st"
  by (simp add: handleItemQuantityChange_def)

lemma positive_initial: "positiveItems (items initialFormData)"
  by (simp add: positiveItems_def initialFormData_def)

lemma invariant_add: "itemsInvariant st \<Longrightarrow> itemsInvariant (fst (handleAddReport today now st))"
  by (simp add: itemsInvariant_def handleAddReport_def Let_def clearForm_def positive_initial
      mkReport_def)

lemma invariant_update:
  "itemsInvariant st \<Longrightarrow> itemsInvariant (fst (handleUpdateReport today st))"
  by (auto simp: itemsInvariant_def handleUpdateReport_def clearForm_def positive_initial
      mkReport_def list_all_iff split: option.splits)

lemma invariant_delete: "itemsInvariant st \<Longrightarrow> itemsInvariant (handleConfirmDelete today st)"
  by (auto simp: itemsInvariant_def handleConfirmDelete_def clearForm_def positive_initial
      list_all_iff split: option.splits)

lemma invariant_select:
  "itemsInvariant st \<Longrightarrow> r \<in> set (reports st) \<Longrightarrow> itemsInvariant (handleSelectReport r st)"
  by (simp add: itemsInvariant_def handleSelectReport_def list_all_iff)

lemma invariant_step: "appStep st st' \<Longrightarrow> itemsInvariant st \<Longrightarrow> itemsInvariant st'"
proof (induction rule: appStep.induct)
  case (input st c)
  then show ?case by (cases c) (simp_all add: itemsInvariant_def)
next
  case (quantity st item v)
  then show ?case by (simp add: itemsInvariant_def itemChange_positive itemChange_reports)
next
  case (clear st)
  then show ?case by (simp add: itemsInvariant_def clearForm_def positive_initial)
next
  case (add st today now)
  then show ?case by (rule invariant_add)
next
  case (select r st)
  then show ?case by (simp add: invariant_select)
next
  case (update st today)
  then show ?case by (rule invariant_update)
next
  case (askDelete st)
  then show ?case by (simp add: itemsInvariant_def handleDeleteReport_def split: option.splits)
next
  case (delete st today)
  then show ?case by (rule invariant_delete)
next
  case (editStock st item v)
  then show ?case by (simp add: itemsInvariant_def handleTempStockChange_def)
next
  case (saveStock st today)
  then show ?case by (simp add: itemsInvariant_def handleSaveStock_def)
next
  case (cancelStock st)
  then show ?case by (simp add: itemsInvariant_def handleCancelEditStock_def)
next
  case (clearStock st)
  then show ?case by (simp add: itemsInvariant_def handleConfirmClearStock_def)
next
  case (effect st)
  then show ?case by (simp add: itemsInvariant_def syncTempStock_def)
qed

lemma invariant_steps: "appStep\<^sup>*\<^sup>* st st' \<Longrightarrow> itemsInvariant st \<Longrightarrow> itemsInvariant st'"
  by (induction rule: rtranclp_induct) (auto intro: invariant_step)

lemma penEntry_reachable: "appStep\<^sup>*\<^sup>* emptyState penEntry"
  unfolding penEntry_def
  apply (rule rtranclp.rtrancl_into_rtrancl [rotated], rule appStep.add)
  apply (rule rtranclp.rtrancl_into_rtrancl [rotated], rule appStep.input)
  apply (rule rtranclp.rtrancl_into_rtrancl [rotated], rule appStep.input)
  apply (rule rtranclp.rtrancl_into_rtrancl [rotated], rule appStep.input)
  apply (rule rtranclp.rtrancl_into_rtrancl [rotated], rule appStep.input)
  apply (rule rtranclp.rtrancl_into_rtrancl [rotated], rule appStep.quantity)
  apply (rule rtranclp.rtrancl_into_rtrancl [rotated], rule appStep.quantity)
  apply (rule rtranclp.rtrancl_into_rtrancl [rotated], rule appStep.quantity)
  apply (rule rtranclp.rtrancl_refl)
  done

lemma penEntry_reports:
  "reports penEntry
     = [mkReport ''2024-06-01T08:00:00.000Z'' (formOf [(''Pen'', 3)] Process)]"
  by (simp add: penEntry_def emptyState_def stateOf_def initialFormData_def
      handleItemQuantityChange_def parseInt_examples handleAddReport_def missingFields_def
      Let_def clearForm_def mkReport_def formOf_def)

text \<open>
  Claim C3, as the code has it. Starting from a state whose draft and reports hold only
  positive quantities (the empty state, for one), every state reached through the handlers
  of the form, the report list and the stock panel holds only positive quantities in every
  report and in the draft, and an item whose input parses to zero, to a negative number or
  to no number is removed from the draft rather than stored. The PDF import is not covered:
  it keeps the items object of the payload as it is, as the example after the theorem
  shows with an imported quantity of 0.
\<close>

theorem form_entry_never_stores_nonpositive_quantity:
  assumes "itemsInvariant st" and "appStep\<^sup>*\<^sup>* st st'"
  shows "(\<forall>r \<in> set (reports st'). \<forall>(i, q) \<in> set (items r). 0 < q)
         \<and> (\<forall>(i, q) \<in> set (items (formData st')). 0 < q)
         \<and> (\<forall>item v. (case parseInt v of None \<Rightarrow> True | Some q \<Rightarrow> q \<le> 0) \<longrightarrow>
               item \<notin> fst ` set (items (formData (handleItemQuantityChange item v st'))))"
proof -
  from assms have "itemsInvariant st'" by (simp add: invariant_steps)
  then show ?thesis
    by (auto simp: itemsInvariant_def positiveItems_def list_all_iff itemChange_removes)
qed

theorem form_entry_never_stores_nonpositive_quantity_witness:
  "itemsInvariant emptyState \<and> appStep\<^sup>*\<^sup>* emptyState penEntry
   \<and> parseInt ''0'' = Some 0
   \<and> map items (reports penEntry) = [[(''Pen'', 3)]]
   \<and> items (formData (handleItemQuantityChange ''Pen'' ''0''
                        (handleSelectReport (hd (reports penEntry)) penEntry))) = []"
proof -
  have inv: "itemsInvariant emptyState"
    by (simp add: itemsInvariant_def positiveItems_def emptyState_def stateOf_def
        initialFormData_def)
  note t = form_entry_never_stores_nonpositive_quantity [OF inv penEntry_reachable]
  have a: "map items (reports penEntry) = [[(''Pen'', 3)]]"
    by (simp add: penEntry_reports mkReport_def formOf_def)
  have b: "items (formData (handleItemQuantityChange ''Pen'' ''0''
                        (handleSelectReport (hd (reports penEntry)) penEntry))) = []"
    by (simp add: penEntry_reports handleItemQuantityChange_def handleSelectReport_def
        parseInt_examples mkReport_def formOf_def)
  from t inv penEntry_reachable a b show ?thesis by (simp add: parseInt_examples)
qed

section \<open>PDF import\<close>

lemma importedReports_ok:
  "JNull \<notin> set entries \<Longrightarrow> \<exists>rs. importedReports ids n entries = Inr rs"
proof (induction entries arbitrary: n)
  case Nil
  then show ?case by simp
next
  case (Cons item rest)
  then obtain rs where "importedReports ids (Suc n) rest = Inr rs" by fastforce
  moreover from Cons.prems have "item \<noteq> JNull" by auto
  ultimately show ?case by (simp add: importedReport_def)
qed

lemma importedReports_null:
  "JNull \<in> set entries \<Longrightarrow> \<exists>e. importedReports ids n entries = Inl e"
proof (induction entries arbitrary: n)
  case Nil
  then show ?case by simp
next
  case (Cons item rest)
  show ?case
  proof (cases "item = JNull")
    case True
    then show ?thesis by (simp add: importedReport_def)
  next
    case False
    with Cons.prems have "JNull \<in> set rest" by simp
    from Cons.IH [OF this, of "Suc n"] obtain e where "importedReports ids (Suc n) rest = Inl e" ..
    then show ?thesis using False by (simp add: importedReport_def)
  qed
qed

lemma importedReports_Inr_no_null:
  "importedReports ids n entries = Inr rs \<Longrightarrow> JNull \<notin> set entries"
  using importedReports_null [of entries ids n] by auto

lemma parsePayload_succeeds_iff:
  "(\<exists>r. parsePayload io = Inr r) \<longleftrightarrow>
     (\<exists>fullText jsonStr parsedData parsedReports parsedStock.
        extractText io = Inr fullText \<and> dropWhile isWhiteSpace fullText \<noteq> []
        \<and> generateContent io fullText = Inr jsonStr
        \<and> jsonParse io (stripFence io jsonStr) = Inr parsedData \<and> isObject parsedData
        \<and> member parsedData ''reports'' = Some (JArr parsedReports)
        \<and> JNull \<notin> set parsedReports
        \<and> member parsedData ''stock'' = Some parsedStock \<and> isObject parsedStock)"
  (is "?lhs \<longleftrightarrow> ?rhs")
proof
  assume ?lhs
  then show ?rhs
    unfolding parsePayload_def
    by (auto split: sum.splits if_splits option.splits json.splits
             dest: importedReports_Inr_no_null)
next
  assume ?rhs
  then obtain fullText jsonStr parsedData parsedReports parsedStock where
    h: "extractText io = Inr fullText" "dropWhile isWhiteSpace fullText \<noteq> []"
       "generateContent io fullText = Inr jsonStr"
       "jsonParse io (stripFence io jsonStr) = Inr parsedData" "isObject parsedData"
       "member parsedData ''reports'' = Some (JArr parsedReports)"
       "JNull \<notin> set parsedReports"
       "member parsedData ''stock'' = Some parsedStock" "isObject parsedStock"
    by blast
  from importedReports_ok [OF h(7)] obtain rs where
    "importedReports (importId io) 0 parsedReports = Inr rs" ..
  with h show ?lhs
    by (simp add: parsePayload_def)
qed

lemma handlePdfImport_failed:
  "parsePayload io = Inl msg \<Longrightarrow>
   handlePdfImport True io st = (st\<lparr>isImporting := False\<rparr>, Some (ImportFailed msg))"
  by (simp add: handlePdfImport_def)

lemma handlePdfImport_succeeded:
  "parsePayload io = Inr (rs, stk) \<Longrightarrow>
   handlePdfImport True io st
     = (st\<lparr>reports := rs, stock := stk, isImporting := False\<rparr>, Some (ImportSucceeded (length rs)))"
  by (simp add: handlePdfImport_def)

lemma indexKey_0: "indexKey 0 = ''0''"
  by code_simp

lemma example_import:
  "parsePayload (answeringIo examplePayload)
     = Inr ([mkReport ''imported-0''
               \<lparr>requesterName = ''Sok'', campus = ''TK'', importDate = ''2024-05-06'',
                exportDate = ''2024-05-08'', items = [(''Bk'', 0), (''Pen'', 10)],
                status = Done\<rparr>],
            [''Pen'' \<mapsto> stockOf 5 ''2024-05-01'' [] 0])"
  by (simp add: parsePayload_def answeringIo_def examplePayload_def isWhiteSpace_def
      importedReport_def importedStock_def importedStockItem_def hasRequiredFields_def
      mkReport_def stockOf_def indexKey_0 del: indexKey.simps)

theorem pdf_import_stores_zero_quantity_counterexample:
  "map items (reports (fst (handlePdfImport True (answeringIo examplePayload) emptyState)))
     = [[(''Bk'', 0), (''Pen'', 10)]]
   \<and> \<not> itemsInvariant (fst (handlePdfImport True (answeringIo examplePayload) emptyState))"
  by (simp add: handlePdfImport_def example_import mkReport_def itemsInvariant_def
      positiveItems_def)

text \<open>
  Claim C5. An import run either passes every step (text extracted and not blank, the
  service answers, the answer parses to an object whose \<open>reports\<close> member is an array
  without null entries and whose \<open>stock\<close> member is an object or array) or fails one. When
  a step fails, the report list and the stock are as before and an error message is shown.
  When all pass, the import succeeds whatever quantities the payload holds, and the stored
  reports and stock are those of the payload alone: they are the same from any prior state,
  so nothing of the prior state is merged in.
\<close>

theorem pdf_import_replaces_or_leaves_untouched:
  "((\<exists>fullText jsonStr parsedData parsedReports parsedStock.
        extractText io = Inr fullText \<and> dropWhile isWhiteSpace fullText \<noteq> []
        \<and> generateContent io fullText = Inr jsonStr
        \<and> jsonParse io (stripFence io jsonStr) = Inr parsedData \<and> isObject parsedData
        \<and> member parsedData ''reports'' = Some (JArr parsedReports)
        \<and> JNull \<notin> set parsedReports
        \<and> member parsedData ''stock'' = Some parsedStock \<and> isObject parsedStock)
     \<longrightarrow> (\<exists>n. snd (handlePdfImport True io st) = Some (ImportSucceeded n))
         \<and> reports (fst (handlePdfImport True io st)) = reports (fst (handlePdfImport True io st'))
         \<and> stock (fst (handlePdfImport True io st)) = stock (fst (handlePdfImport True io st')))
   \<and> (\<not> (\<exists>fullText jsonStr parsedData parsedReports parsedStock.
        extractText io = Inr fullText \<and> dropWhile isWhiteSpace fullText \<noteq> []
        \<and> generateContent io fullText = Inr jsonStr
        \<and> jsonParse io (stripFence io jsonStr) = Inr parsedData \<and> isObject parsedData
        \<and> member parsedData ''reports'' = Some (JArr parsedReports)
        \<and> JNull \<notin> set parsedReports
        \<and> member parsedData ''stock'' = Some parsedStock \<and> isObject parsedStock)
     \<longrightarrow> (\<exists>msg. snd (handlePdfImport True io st) = Some (ImportFailed msg))
         \<and> reports (fst (handlePdfImport True io st)) = reports st
         \<and> stock (fst (handlePdfImport True io st)) = stock st)"
proof (intro conjI impI)
  assume "\<exists>fullText jsonStr parsedData parsedReports parsedStock.
        extractText io = Inr fullText \<and> dropWhile isWhiteSpace fullText \<noteq> []
        \<and> generateContent io fullText = Inr jsonStr
        \<and> jsonParse io (stripFence io jsonStr) = Inr parsedData \<and> isObject parsedData
        \<and> member parsedData ''reports'' = Some (JArr parsedReports)
        \<and> JNull \<notin> set parsedReports
        \<and> member parsedData ''stock'' = Some parsedStock \<and> isObject parsedStock"
  then obtain rs stk where r: "parsePayload io = Inr (rs, stk)"
    using parsePayload_succeeds_iff [of io] by auto
  show "\<exists>n. snd (handlePdfImport True io st) = Some (ImportSucceeded n)"
    by (simp add: handlePdfImport_succeeded [OF r])
  show "reports (fst (handlePdfImport True io st)) = reports (fst (handlePdfImport True io st'))"
    by (simp add: handlePdfImport_succeeded [OF r])
  show "stock (fst (handlePdfImport True io st)) = stock (fst (handlePdfImport True io st'))"
    by (simp add: handlePdfImport_succeeded [OF r])
next
  assume "\<not> (\<exists>fullText jsonStr parsedData parsedReports parsedStock.
        extractText io = Inr fullText \<and> dropWhile isWhiteSpace fullText \<noteq> []
        \<and> generateContent io fullText = Inr jsonStr
        \<and> jsonParse io (stripFence io jsonStr) = Inr parsedData \<and> isObject parsedData
        \<and> member parsedData ''reports'' = Some (JArr parsedReports)
        \<and> JNull \<notin> set parsedReports
        \<and> member parsedData ''stock'' = Some parsedStock \<and> isObject parsedStock)"
  then have "\<nexists>r. parsePayload io = Inr r"
    using parsePayload_succeeds_iff [of io] by simp
  then obtain msg where r: "parsePayload io = Inl msg"
    by (cases "parsePayload io") auto
  show "\<exists>msg. snd (handlePdfImport True io st) = Some (ImportFailed msg)"
    by (simp add: handlePdfImport_failed [OF r])
  show "reports (fst (handlePdfImport True io st)) = reports st"
    by (simp add: handlePdfImport_failed [OF r])
  show "stock (fst (handlePdfImport True io st)) = stock st"
    by (simp add: handlePdfImport_failed [OF r])
qed

theorem pdf_import_replaces_or_leaves_untouched_witness:
  "snd (handlePdfImport True (answeringIo examplePayload) penAdd) = Some (ImportSucceeded 1)
   \<and> map requesterName (reports (fst (handlePdfImport True (answeringIo examplePayload) penPromote)))
       = [''Sok'']
   \<and> stock (fst (handlePdfImport True (answeringIo examplePayload) (cardDelete Done)))
       = [''Pen'' \<mapsto> stockOf 5 ''2024-05-01'' [] 0]
   \<and> insufficientItems
         (stock (fst (handlePdfImport True (answeringIo examplePayload) (cardDelete Done))))
         [(''Bk'', 0), (''Pen'', 10)]
       = [\<lparr>sf_item = ''Pen'', requested = 10, available = 5\<rparr>]
   \<and> handlePdfImport True malformedIo penPromote
       = (penPromote, Some (ImportFailed ''Unexpected token S in JSON at position 0''))"
proof -
  have ok: "extractText (answeringIo examplePayload) = Inr ''Stationary Report''
     \<and> dropWhile isWhiteSpace ''Stationary Report'' \<noteq> []
     \<and> generateContent (answeringIo examplePayload) ''Stationary Report'' = Inr ''{}''
     \<and> jsonParse (answeringIo examplePayload) (stripFence (answeringIo examplePayload) ''{}'')
         = Inr examplePayload
     \<and> isObject examplePayload"
    by (simp add: answeringIo_def examplePayload_def isWhiteSpace_def)
  have bad: "jsonParse malformedIo (stripFence malformedIo ''Sorry'')
               = Inl ''Unexpected token S in JSON at position 0''
             \<and> generateContent malformedIo ''Stationary Report'' = Inr ''Sorry''
             \<and> extractText malformedIo = Inr ''Stationary Report''"
    by (simp add: malformedIo_def)
  have failed: "parsePayload malformedIo = Inl ''Unexpected token S in JSON at position 0''"
    by (simp add: parsePayload_def malformedIo_def isWhiteSpace_def)
  have unchanged: "penPromote\<lparr>isImporting := False\<rparr> = penPromote"
    by (simp add: penPromote_def stateOf_def)
  note t1 = pdf_import_replaces_or_leaves_untouched
              [of "answeringIo examplePayload" penAdd penPromote]
  note t2 = pdf_import_replaces_or_leaves_untouched [of malformedIo penPromote penAdd]
  from t1 t2 ok bad show ?thesis
    by (simp add: handlePdfImport_succeeded [OF example_import]
        handlePdfImport_failed [OF failed] unchanged mkReport_def insufficientItems_def
        availableQty_def stockOf_def)
qed

section \<open>Loading legacy stock\<close>

lemma loadStock_object:
  "item \<in> set catalogue \<Longrightarrow>
   \<exists>stk. loadStock catalogue today (Some (JObj kvs)) = Some stk
        \<and> stk item = Some (migrateStockItem today (map_of kvs item))"
  by (simp add: loadStock_def)

text \<open>
  Claim C8. On load, a stored stock entry of a catalogue item that is a bare number \<open>n\<close>
  becomes the full entry with quantity \<open>n\<close>, lastInDate today, lastOutDate empty and
  lastUpdateQuantity 0; the stored value 42 becomes quantity 42.
\<close>

theorem legacy_number_becomes_full_stock_entry:
  assumes "item \<in> set catalogue" and "map_of kvs item = Some (JNum n)"
  shows "\<exists>stk. loadStock catalogue today (Some (JObj kvs)) = Some stk
           \<and> stk item = Some \<lparr>quantity = n, lastInDate = today, lastOutDate = [],
                               lastUpdateQuantity = 0\<rparr>"
  using loadStock_object [OF assms(1), of today kvs] assms(2) by simp

theorem legacy_number_becomes_full_stock_entry_witness:
  "''Pen'' \<in> set [''Pen'', ''Bk'']
   \<and> member legacyStock ''Pen'' = Some (JNum 42)
   \<and> map_option (\<lambda>stk. stk ''Pen'') (loadStock [''Pen'', ''Bk''] ''2024-06-01'' (Some legacyStock))
       = Some (Some (stockOf 42 ''2024-06-01'' [] 0))"
proof -
  have m: "map_of [(''Pen'', JNum 42), (''Ruler'', JNum 7)] ''Pen'' = Some (JNum 42)"
    by simp
  have c: "''Pen'' \<in> set [''Pen'', ''Bk'']" by simp
  from legacy_number_becomes_full_stock_entry [OF c m, of "''2024-06-01''"]
  show ?thesis by (auto simp: legacyStock_def stockOf_def)
qed

section \<open>Start of the week\<close>



end
